theory Spec2Isabelle
  imports Complex_Main "HOL-Library.Word" "HOL-Library.Signed_Division"
begin

section \<open>The platform: logging and the graphics interfaces\<close>

text \<open>
  The three source files of the Android client (\<^verbatim>\<open>frame_decoder.cpp\<close>,
  \<^verbatim>\<open>stereo_renderer.cpp\<close>, \<^verbatim>\<open>vr_renderer.cpp\<close>) compute almost nothing themselves:
  they call OpenGL ES, EGL, the Android log and JNI. The embedding keeps every such call.
  A \<open>world\<close> holds the sequence of calls made so far, the log lines written so far, and
  the answers of the platform: \<open>respond w cs k\<close> is value number \<open>k\<close> that the platform
  returns for the last call of the history \<open>cs\<close> (0 is the return value, 1 and up are
  values written through out-parameters). The answers are arbitrary: every theorem below
  holds for every platform.
\<close>

type_synonym u8 = "8 word"
type_synonym GLuint = nat
type_synonym handle = nat

datatype glenum =
    GL_TEXTURE_2D | GL_RGB | GL_UNSIGNED_BYTE | GL_TEXTURE0 | GL_TRIANGLES
  | GL_COLOR_BUFFER_BIT | GL_DEPTH_BUFFER_BIT | GL_ARRAY_BUFFER | GL_STATIC_DRAW
  | GL_FLOAT | GL_VERTEX_SHADER | GL_FRAGMENT_SHADER | GL_COMPILE_STATUS
  | GL_LINK_STATUS | GL_TEXTURE_MIN_FILTER | GL_TEXTURE_MAG_FILTER
  | GL_TEXTURE_WRAP_S | GL_TEXTURE_WRAP_T | GL_LINEAR | GL_CLAMP_TO_EDGE

datatype eglenum =
    EGL_RENDERABLE_TYPE | EGL_OPENGL_ES3_BIT | EGL_SURFACE_TYPE | EGL_WINDOW_BIT
  | EGL_RED_SIZE | EGL_GREEN_SIZE | EGL_BLUE_SIZE | EGL_ALPHA_SIZE | EGL_DEPTH_SIZE
  | EGL_SAMPLE_BUFFERS | EGL_SAMPLES | EGL_NONE | EGL_NATIVE_VISUAL_ID
  | EGL_CONTEXT_CLIENT_VERSION | EGL_DEFAULT_DISPLAY

datatype egl_attrib = Sym eglenum | Num int

datatype shader_source = VERTEX_SHADER | FRAGMENT_SHADER

datatype release_mode = JNI_ABORT

text \<open>
  One constructor for each external function the sources call, with its arguments,
  grouped by interface: textures and drawing, vertex buffers, shaders, EGL, Android.
\<close>

datatype gl_call =
    GlViewport int int int int
  | GlBindTexture glenum GLuint
  | GlTexImage2D glenum int glenum int int int glenum glenum "u8 list"
  | GlGetError
  | GlClearColor real real real real
  | GlClear "glenum list"
  | GlActiveTexture glenum
  | GlGetUniformLocation GLuint string
  | GlUniform1i int int
  | GlDrawArrays glenum int int
  | GlGenTextures int
  | GlTexParameteri glenum glenum glenum
  | GlDeleteTextures int GLuint

datatype gl_buffer_call =
    GlGenVertexArrays int
  | GlGenBuffers int
  | GlBindVertexArray GLuint
  | GlBindBuffer glenum GLuint
  | GlBufferData glenum nat "real list" glenum
  | GlVertexAttribPointer nat int glenum bool nat nat
  | GlEnableVertexAttribArray nat
  | GlDeleteVertexArrays int GLuint
  | GlDeleteBuffers int GLuint

datatype gl_shader_call =
    GlCreateShader glenum
  | GlShaderSource GLuint int shader_source
  | GlCompileShader GLuint
  | GlGetShaderiv GLuint glenum
  | GlGetShaderInfoLog GLuint int
  | GlCreateProgram
  | GlAttachShader GLuint GLuint
  | GlLinkProgram GLuint
  | GlGetProgramiv GLuint glenum
  | GlGetProgramInfoLog GLuint int
  | GlDeleteShader GLuint
  | GlDeleteProgram GLuint

datatype egl_call =
    EglGetDisplay eglenum
  | EglInitialize handle
  | EglChooseConfig handle "egl_attrib list" int
  | EglGetConfigAttrib handle handle eglenum
  | EglCreateWindowSurface handle handle handle
  | EglCreateContext handle handle handle "egl_attrib list"
  | EglMakeCurrent handle handle handle handle
  | EglSwapInterval handle int
  | EglSwapBuffers handle handle
  | EglGetError
  | EglDestroyContext handle handle
  | EglDestroySurface handle handle
  | EglTerminate handle

datatype android_call =
    ANativeWindow_fromSurface handle
  | ANativeWindow_setBuffersGeometry handle int int int
  | ANativeWindow_release handle
  | GetByteArrayElements "u8 list"
  | ReleaseByteArrayElements "u8 list" release_mode

datatype call =
    GL gl_call
  | GLBuf gl_buffer_call
  | GLShader gl_shader_call
  | EGL egl_call
  | Android android_call

datatype log_level = ANDROID_LOG_INFO | ANDROID_LOG_ERROR

datatype log_arg = ArgI int | ArgS string

text \<open>A log line: priority, tag, format string and the arguments to be formatted.\<close>

datatype log_entry = Log log_level string string "log_arg list"

record world =
  calls :: "call list"
  logs :: "log_entry list"
  respond :: "call list \<Rightarrow> nat \<Rightarrow> nat"
  respond_str :: "call list \<Rightarrow> string"
  frameCount :: int

text \<open>
  \<open>frameCount\<close> is the function-local static counter of \<^verbatim>\<open>VRRenderer::renderFrame\<close>,
  which lives as long as the process does.
\<close>

definition android_log_print :: "log_level \<Rightarrow> string \<Rightarrow> string \<Rightarrow> log_arg list \<Rightarrow> world \<Rightarrow> world" where
  "android_log_print prio tag fmt args w = w\<lparr>logs := logs w @ [Log prio tag fmt args]\<rparr>"

text \<open>A call whose results are not used, and a call whose results are.\<close>

definition ext_void :: "call \<Rightarrow> world \<Rightarrow> world" where
  "ext_void c w = w\<lparr>calls := calls w @ [c]\<rparr>"

definition ext :: "call \<Rightarrow> world \<Rightarrow> (nat \<Rightarrow> nat) \<times> world" where
  "ext c w = (respond w (calls w @ [c]), ext_void c w)"

definition ext_str :: "call \<Rightarrow> world \<Rightarrow> string \<times> world" where
  "ext_str c w = (respond_str w (calls w @ [c]), ext_void c w)"

definition GL_NO_ERROR :: nat where "GL_NO_ERROR = 0"
definition EGL_NO_DISPLAY :: handle where "EGL_NO_DISPLAY = 0"
definition EGL_NO_SURFACE :: handle where "EGL_NO_SURFACE = 0"
definition EGL_NO_CONTEXT :: handle where "EGL_NO_CONTEXT = 0"
definition nullptr :: handle where "nullptr = 0"

definition glViewport :: "int \<Rightarrow> int \<Rightarrow> int \<Rightarrow> int \<Rightarrow> world \<Rightarrow> world" where
  "glViewport x y width height = ext_void (GL (GlViewport x y width height))"

definition glBindTexture :: "glenum \<Rightarrow> GLuint \<Rightarrow> world \<Rightarrow> world" where
  "glBindTexture target texture = ext_void (GL (GlBindTexture target texture))"

definition glTexImage2D ::
  "glenum \<Rightarrow> int \<Rightarrow> glenum \<Rightarrow> int \<Rightarrow> int \<Rightarrow> int \<Rightarrow> glenum \<Rightarrow> glenum \<Rightarrow> u8 list \<Rightarrow> world \<Rightarrow> world" where
  "glTexImage2D target level internalformat width height border format type pixels =
     ext_void (GL (GlTexImage2D target level internalformat width height border format type pixels))"

definition glGetError :: "world \<Rightarrow> nat \<times> world" where
  "glGetError w = (let (r, w') = ext (GL GlGetError) w in (r 0, w'))"

section \<open>frame\_decoder.cpp\<close>

text \<open>
  The fields \<open>width\<close> and \<open>height\<close> are C++ \<^verbatim>\<open>int\<close>s. The only arithmetic on them is
  \<^verbatim>\<open>width * height * 3\<close>. Signed overflow is undefined behaviour in C++, so the model
  makes it a fault of its own rather than choosing one outcome. The product is then
  converted to \<^verbatim>\<open>size_t\<close> for \<^verbatim>\<open>std::vector::resize\<close>: a negative \<^verbatim>\<open>int\<close> becomes a
  value above \<^verbatim>\<open>max_size()\<close> on both 32 and 64 bit targets, and \<^verbatim>\<open>resize\<close> throws
  \<^verbatim>\<open>std::length_error\<close>. Exhaustion of memory (\<^verbatim>\<open>std::bad_alloc\<close>) is not modelled.
\<close>

datatype fault = Signed_overflow | Length_error

definition INT_MAX :: int where "INT_MAX = 2147483647"
definition INT_MIN :: int where "INT_MIN = - 2147483648"

definition mul_int :: "int \<Rightarrow> int \<Rightarrow> fault + int" where
  "mul_int a b = (if INT_MIN \<le> a * b \<and> a * b \<le> INT_MAX then Inr (a * b) else Inl Signed_overflow)"

definition vector_resize :: "u8 list \<Rightarrow> int \<Rightarrow> fault + u8 list" where
  "vector_resize v n =
     (if n < 0 then Inl Length_error
      else Inr (take (nat n) v @ replicate (nat n - length v) 0))"

record FrameDecoder =
  width :: int
  height :: int
  rgbBuffer :: "u8 list"

definition FD_LOGI :: "string \<Rightarrow> log_arg list \<Rightarrow> world \<Rightarrow> world" where
  "FD_LOGI = android_log_print ANDROID_LOG_INFO ''FrameDecoder''"


text \<open>\<^verbatim>\<open>rgbBuffer.resize(width * height * 3)\<close>, shared by the constructor and \<^verbatim>\<open>setDimensions\<close>.\<close>

definition resize_rgbBuffer :: "FrameDecoder \<Rightarrow> fault + FrameDecoder" where
  "resize_rgbBuffer d =
     (case mul_int (width d) (height d) of
        Inl e \<Rightarrow> Inl e
      | Inr wh \<Rightarrow>
          (case mul_int wh 3 of
             Inl e \<Rightarrow> Inl e
           | Inr n \<Rightarrow>
               (case vector_resize (rgbBuffer d) n of
                  Inl e \<Rightarrow> Inl e
                | Inr buf \<Rightarrow> Inr (d\<lparr>rgbBuffer := buf\<rparr>))))"

definition FrameDecoder_ctor :: "int \<Rightarrow> int \<Rightarrow> fault + FrameDecoder" where
  "FrameDecoder_ctor w h = resize_rgbBuffer \<lparr>width = w, height = h, rgbBuffer = []\<rparr>"

text \<open>The default arguments of the constructor: \<^verbatim>\<open>FrameDecoder(int w = 1024, int h = 1024)\<close>.\<close>

definition FrameDecoder_default :: "fault + FrameDecoder" where
  "FrameDecoder_default = FrameDecoder_ctor 1024 1024"

text \<open>
  \<^verbatim>\<open>decodeJPEG\<close> logs the size and returns \<^verbatim>\<open>true\<close>; the \<^verbatim>\<open>memset\<close> of the output is
  commented out in the source. The model returns the memory behind \<^verbatim>\<open>outRGB\<close> next to
  the result, so that what the function wrote there can be stated.
\<close>

definition decodeJPEG :: "FrameDecoder \<Rightarrow> u8 list \<Rightarrow> int \<Rightarrow> u8 list \<Rightarrow> world \<Rightarrow> bool \<times> u8 list \<times> world" where
  "decodeJPEG d jpegData jpegSize outRGB w =
     (let w1 = FD_LOGI ''Decoding JPEG: %d bytes'' [ArgI jpegSize] w
      in (True, outRGB, w1))"


definition setDimensions :: "FrameDecoder \<Rightarrow> int \<Rightarrow> int \<Rightarrow> fault + FrameDecoder" where
  "setDimensions d w h = resize_rgbBuffer (d\<lparr>width := w, height := h\<rparr>)"

section \<open>stereo\_renderer.cpp\<close>

text \<open>
  The viewport fields are C++ \<^verbatim>\<open>int\<close>s; the only arithmetic on them is the division by
  two, which cannot overflow. C++ division truncates towards zero: \<open>sdiv\<close>.
\<close>

record StereoRenderer =
  viewportWidth :: int
  viewportHeight :: int

definition SR_LOGI :: "string \<Rightarrow> log_arg list \<Rightarrow> world \<Rightarrow> world" where
  "SR_LOGI = android_log_print ANDROID_LOG_INFO ''StereoRenderer''"

definition StereoRenderer_ctor :: StereoRenderer where
  "StereoRenderer_ctor = \<lparr>viewportWidth = 0, viewportHeight = 0\<rparr>"

definition SR_setViewport :: "StereoRenderer \<Rightarrow> int \<Rightarrow> int \<Rightarrow> world \<Rightarrow> StereoRenderer \<times> world" where
  "SR_setViewport s width' height' w =
     (s\<lparr>viewportWidth := width', viewportHeight := height'\<rparr>,
      SR_LOGI ''Stereo viewport: %dx%d'' [ArgI width', ArgI height'] w)"

definition setupLeftEye :: "StereoRenderer \<Rightarrow> world \<Rightarrow> world" where
  "setupLeftEye s w = glViewport 0 0 (viewportWidth s sdiv 2) (viewportHeight s) w"

definition setupRightEye :: "StereoRenderer \<Rightarrow> world \<Rightarrow> world" where
  "setupRightEye s w =
     glViewport (viewportWidth s sdiv 2) 0 (viewportWidth s sdiv 2) (viewportHeight s) w"

text \<open>
  \<^verbatim>\<open>getProjectionMatrix\<close> fills the sixteen entries with the identity matrix, whatever the
  eye; its other locals are unused.
\<close>

definition getProjectionMatrix :: "StereoRenderer \<Rightarrow> bool \<Rightarrow> real list" where
  "getProjectionMatrix s isLeftEye = map (\<lambda>i. if i mod 5 = 0 then 1 else 0) [0..<16]"

text \<open>The columns of the screen that a viewport rectangle at \<open>x\<close> of width \<open>w\<close> covers.\<close>

definition columns :: "int \<Rightarrow> int \<Rightarrow> int set" where
  "columns x w = {x..<x + w}"

text \<open>The rectangle that the last call of a history sets the viewport to, if it is one.\<close>

definition viewport_set :: "call list \<Rightarrow> (int \<times> int \<times> int \<times> int) option" where
  "viewport_set cs =
     (if cs = [] then None
      else (case last cs of GL (GlViewport x y w h) \<Rightarrow> Some (x, y, w, h) | _ \<Rightarrow> None))"

section \<open>vr\_renderer.cpp\<close>

subsection \<open>The remaining external functions\<close>

definition VR_LOGI :: "string \<Rightarrow> log_arg list \<Rightarrow> world \<Rightarrow> world" where
  "VR_LOGI = android_log_print ANDROID_LOG_INFO ''VRRenderer''"

definition VR_LOGE :: "string \<Rightarrow> log_arg list \<Rightarrow> world \<Rightarrow> world" where
  "VR_LOGE = android_log_print ANDROID_LOG_ERROR ''VRRenderer''"

definition glClearColor :: "real \<Rightarrow> real \<Rightarrow> real \<Rightarrow> real \<Rightarrow> world \<Rightarrow> world" where
  "glClearColor r g b a = ext_void (GL (GlClearColor r g b a))"

definition glClear :: "glenum list \<Rightarrow> world \<Rightarrow> world" where
  "glClear bits = ext_void (GL (GlClear bits))"

definition glActiveTexture :: "glenum \<Rightarrow> world \<Rightarrow> world" where
  "glActiveTexture texture = ext_void (GL (GlActiveTexture texture))"

definition glGetUniformLocation :: "GLuint \<Rightarrow> string \<Rightarrow> world \<Rightarrow> int \<times> world" where
  "glGetUniformLocation program name w =
     (let (r, w') = ext (GL (GlGetUniformLocation program name)) w in (int (r 0), w'))"

definition glUniform1i :: "int \<Rightarrow> int \<Rightarrow> world \<Rightarrow> world" where
  "glUniform1i location v0 = ext_void (GL (GlUniform1i location v0))"

definition glDrawArrays :: "glenum \<Rightarrow> int \<Rightarrow> int \<Rightarrow> world \<Rightarrow> world" where
  "glDrawArrays mode first count = ext_void (GL (GlDrawArrays mode first count))"

definition glGenTextures :: "int \<Rightarrow> world \<Rightarrow> GLuint \<times> world" where
  "glGenTextures n w = (let (r, w') = ext (GL (GlGenTextures n)) w in (r 1, w'))"

definition glTexParameteri :: "glenum \<Rightarrow> glenum \<Rightarrow> glenum \<Rightarrow> world \<Rightarrow> world" where
  "glTexParameteri target pname param = ext_void (GL (GlTexParameteri target pname param))"

definition glDeleteTextures :: "int \<Rightarrow> GLuint \<Rightarrow> world \<Rightarrow> world" where
  "glDeleteTextures n texture = ext_void (GL (GlDeleteTextures n texture))"

definition glGenVertexArrays :: "int \<Rightarrow> world \<Rightarrow> GLuint \<times> world" where
  "glGenVertexArrays n w = (let (r, w') = ext (GLBuf (GlGenVertexArrays n)) w in (r 1, w'))"

definition glGenBuffers :: "int \<Rightarrow> world \<Rightarrow> GLuint \<times> world" where
  "glGenBuffers n w = (let (r, w') = ext (GLBuf (GlGenBuffers n)) w in (r 1, w'))"

definition glBindVertexArray :: "GLuint \<Rightarrow> world \<Rightarrow> world" where
  "glBindVertexArray array = ext_void (GLBuf (GlBindVertexArray array))"

definition glBindBuffer :: "glenum \<Rightarrow> GLuint \<Rightarrow> world \<Rightarrow> world" where
  "glBindBuffer target buffer = ext_void (GLBuf (GlBindBuffer target buffer))"

definition glBufferData :: "glenum \<Rightarrow> nat \<Rightarrow> real list \<Rightarrow> glenum \<Rightarrow> world \<Rightarrow> world" where
  "glBufferData target sz data usage = ext_void (GLBuf (GlBufferData target sz data usage))"

definition glVertexAttribPointer :: "nat \<Rightarrow> int \<Rightarrow> glenum \<Rightarrow> bool \<Rightarrow> nat \<Rightarrow> nat \<Rightarrow> world \<Rightarrow> world" where
  "glVertexAttribPointer index sz type normalized stride pointer =
     ext_void (GLBuf (GlVertexAttribPointer index sz type normalized stride pointer))"

definition glEnableVertexAttribArray :: "nat \<Rightarrow> world \<Rightarrow> world" where
  "glEnableVertexAttribArray index = ext_void (GLBuf (GlEnableVertexAttribArray index))"

definition glDeleteVertexArrays :: "int \<Rightarrow> GLuint \<Rightarrow> world \<Rightarrow> world" where
  "glDeleteVertexArrays n array = ext_void (GLBuf (GlDeleteVertexArrays n array))"

definition glDeleteBuffers :: "int \<Rightarrow> GLuint \<Rightarrow> world \<Rightarrow> world" where
  "glDeleteBuffers n buffer = ext_void (GLBuf (GlDeleteBuffers n buffer))"

definition glCreateShader :: "glenum \<Rightarrow> world \<Rightarrow> GLuint \<times> world" where
  "glCreateShader type w = (let (r, w') = ext (GLShader (GlCreateShader type)) w in (r 0, w'))"

definition glShaderSource :: "GLuint \<Rightarrow> int \<Rightarrow> shader_source \<Rightarrow> world \<Rightarrow> world" where
  "glShaderSource shader count source = ext_void (GLShader (GlShaderSource shader count source))"

definition glCompileShader :: "GLuint \<Rightarrow> world \<Rightarrow> world" where
  "glCompileShader shader = ext_void (GLShader (GlCompileShader shader))"

definition glGetShaderiv :: "GLuint \<Rightarrow> glenum \<Rightarrow> world \<Rightarrow> nat \<times> world" where
  "glGetShaderiv shader pname w =
     (let (r, w') = ext (GLShader (GlGetShaderiv shader pname)) w in (r 1, w'))"

definition glGetShaderInfoLog :: "GLuint \<Rightarrow> int \<Rightarrow> world \<Rightarrow> string \<times> world" where
  "glGetShaderInfoLog shader bufSize = ext_str (GLShader (GlGetShaderInfoLog shader bufSize))"

definition glCreateProgram :: "world \<Rightarrow> GLuint \<times> world" where
  "glCreateProgram w = (let (r, w') = ext (GLShader GlCreateProgram) w in (r 0, w'))"

definition glAttachShader :: "GLuint \<Rightarrow> GLuint \<Rightarrow> world \<Rightarrow> world" where
  "glAttachShader program shader = ext_void (GLShader (GlAttachShader program shader))"

definition glLinkProgram :: "GLuint \<Rightarrow> world \<Rightarrow> world" where
  "glLinkProgram program = ext_void (GLShader (GlLinkProgram program))"

definition glGetProgramiv :: "GLuint \<Rightarrow> glenum \<Rightarrow> world \<Rightarrow> nat \<times> world" where
  "glGetProgramiv program pname w =
     (let (r, w') = ext (GLShader (GlGetProgramiv program pname)) w in (r 1, w'))"

definition glGetProgramInfoLog :: "GLuint \<Rightarrow> int \<Rightarrow> world \<Rightarrow> string \<times> world" where
  "glGetProgramInfoLog program bufSize = ext_str (GLShader (GlGetProgramInfoLog program bufSize))"

definition glDeleteShader :: "GLuint \<Rightarrow> world \<Rightarrow> world" where
  "glDeleteShader shader = ext_void (GLShader (GlDeleteShader shader))"

definition glDeleteProgram :: "GLuint \<Rightarrow> world \<Rightarrow> world" where
  "glDeleteProgram program = ext_void (GLShader (GlDeleteProgram program))"

definition eglGetDisplay :: "eglenum \<Rightarrow> world \<Rightarrow> handle \<times> world" where
  "eglGetDisplay display_id w = (let (r, w') = ext (EGL (EglGetDisplay display_id)) w in (r 0, w'))"

definition eglInitialize :: "handle \<Rightarrow> world \<Rightarrow> bool \<times> world" where
  "eglInitialize dpy w = (let (r, w') = ext (EGL (EglInitialize dpy)) w in (r 0 \<noteq> 0, w'))"

text \<open>\<^verbatim>\<open>eglChooseConfig\<close> returns a flag and writes the configuration and their number.\<close>

definition eglChooseConfig :: "handle \<Rightarrow> egl_attrib list \<Rightarrow> int \<Rightarrow> world \<Rightarrow> bool \<times> handle \<times> int \<times> world" where
  "eglChooseConfig dpy attrib_list config_size w =
     (let (r, w') = ext (EGL (EglChooseConfig dpy attrib_list config_size)) w
      in (r 0 \<noteq> 0, r 1, int (r 2), w'))"

definition eglGetConfigAttrib :: "handle \<Rightarrow> handle \<Rightarrow> eglenum \<Rightarrow> world \<Rightarrow> int \<times> world" where
  "eglGetConfigAttrib dpy config attribute w =
     (let (r, w') = ext (EGL (EglGetConfigAttrib dpy config attribute)) w in (int (r 1), w'))"

definition eglCreateWindowSurface :: "handle \<Rightarrow> handle \<Rightarrow> handle \<Rightarrow> world \<Rightarrow> handle \<times> world" where
  "eglCreateWindowSurface dpy config win w =
     (let (r, w') = ext (EGL (EglCreateWindowSurface dpy config win)) w in (r 0, w'))"

definition eglCreateContext :: "handle \<Rightarrow> handle \<Rightarrow> handle \<Rightarrow> egl_attrib list \<Rightarrow> world \<Rightarrow> handle \<times> world" where
  "eglCreateContext dpy config share_context attrib_list w =
     (let (r, w') = ext (EGL (EglCreateContext dpy config share_context attrib_list)) w in (r 0, w'))"

definition eglMakeCurrent :: "handle \<Rightarrow> handle \<Rightarrow> handle \<Rightarrow> handle \<Rightarrow> world \<Rightarrow> bool \<times> world" where
  "eglMakeCurrent dpy draw read ctx w =
     (let (r, w') = ext (EGL (EglMakeCurrent dpy draw read ctx)) w in (r 0 \<noteq> 0, w'))"

definition eglSwapInterval :: "handle \<Rightarrow> int \<Rightarrow> world \<Rightarrow> world" where
  "eglSwapInterval dpy interval = ext_void (EGL (EglSwapInterval dpy interval))"

definition eglSwapBuffers :: "handle \<Rightarrow> handle \<Rightarrow> world \<Rightarrow> bool \<times> world" where
  "eglSwapBuffers dpy surf w = (let (r, w') = ext (EGL (EglSwapBuffers dpy surf)) w in (r 0 \<noteq> 0, w'))"

definition eglGetError :: "world \<Rightarrow> nat \<times> world" where
  "eglGetError w = (let (r, w') = ext (EGL EglGetError) w in (r 0, w'))"

definition eglDestroyContext :: "handle \<Rightarrow> handle \<Rightarrow> world \<Rightarrow> world" where
  "eglDestroyContext dpy ctx = ext_void (EGL (EglDestroyContext dpy ctx))"

definition eglDestroySurface :: "handle \<Rightarrow> handle \<Rightarrow> world \<Rightarrow> world" where
  "eglDestroySurface dpy surf = ext_void (EGL (EglDestroySurface dpy surf))"

definition eglTerminate :: "handle \<Rightarrow> world \<Rightarrow> world" where
  "eglTerminate dpy = ext_void (EGL (EglTerminate dpy))"

definition aNativeWindow_fromSurface :: "handle \<Rightarrow> world \<Rightarrow> handle \<times> world" where
  "aNativeWindow_fromSurface surf w =
     (let (r, w') = ext (Android (ANativeWindow_fromSurface surf)) w in (r 0, w'))"

definition aNativeWindow_setBuffersGeometry :: "handle \<Rightarrow> int \<Rightarrow> int \<Rightarrow> int \<Rightarrow> world \<Rightarrow> world" where
  "aNativeWindow_setBuffersGeometry win wd ht format =
     ext_void (Android (ANativeWindow_setBuffersGeometry win wd ht format))"

definition aNativeWindow_release :: "handle \<Rightarrow> world \<Rightarrow> world" where
  "aNativeWindow_release win = ext_void (Android (ANativeWindow_release win))"

text \<open>
  A Java byte array is the list of its bytes; \<^verbatim>\<open>GetByteArrayElements\<close> hands them out
  (that it may return null is not modelled: the bytes are never read).
\<close>

definition getByteArrayElements :: "u8 list \<Rightarrow> world \<Rightarrow> u8 list \<times> world" where
  "getByteArrayElements array w = (array, ext_void (Android (GetByteArrayElements array)) w)"

definition releaseByteArrayElements :: "u8 list \<Rightarrow> u8 list \<Rightarrow> release_mode \<Rightarrow> world \<Rightarrow> world" where
  "releaseByteArrayElements array elems mode =
     ext_void (Android (ReleaseByteArrayElements array mode))"

subsection \<open>class VRRenderer\<close>

text \<open>
  The member \<^verbatim>\<open>context\<close> is called \<open>egl_context\<close> here. Handles and object names are
  compared and passed on, never computed with. \<open>renderTime\<close> is a \<^verbatim>\<open>float\<close> in the
  source; the model adds the increment as a real number and does not round.
\<close>

record VRRenderer =
  display :: handle
  surface :: handle
  egl_context :: handle
  window :: handle
  shaderProgram :: GLuint
  vao :: GLuint
  vbo :: GLuint
  leftEyeTexture :: GLuint
  rightEyeTexture :: GLuint
  currentEyeTexture :: GLuint
  viewportWidth :: int
  viewportHeight :: int
  renderTime :: real

text \<open>Eighteen floats, of which the initialiser gives twelve; the rest are zero.\<close>

definition fullScreenTriangle :: "real list" where
  "fullScreenTriangle =
     [-1, -1, 0, 0,
       3, -1, 2, 0,
      -1,  3, 0, 2,
       0, 0, 0, 0, 0, 0]"

definition VRRenderer_ctor :: VRRenderer where
  "VRRenderer_ctor =
     \<lparr>display = EGL_NO_DISPLAY, surface = EGL_NO_SURFACE, egl_context = EGL_NO_CONTEXT,
      window = nullptr, shaderProgram = 0, vao = 0, vbo = 0, leftEyeTexture = 0,
      rightEyeTexture = 0, currentEyeTexture = 0, viewportWidth = 0, viewportHeight = 0,
      renderTime = 0\<rparr>"

definition compileShader :: "glenum \<Rightarrow> shader_source \<Rightarrow> world \<Rightarrow> GLuint \<times> world" where
  "compileShader type source w =
     (let (shader, w1) = glCreateShader type w;
          w2 = glShaderSource shader 1 source w1;
          w3 = glCompileShader shader w2;
          (success, w4) = glGetShaderiv shader GL_COMPILE_STATUS w3
      in if success = 0
         then (let (infoLog, w5) = glGetShaderInfoLog shader 512 w4
               in (0, VR_LOGE ''Shader compilation failed: %s'' [ArgS infoLog] w5))
         else (shader, w4))"

definition createShaderProgram :: "shader_source \<Rightarrow> shader_source \<Rightarrow> world \<Rightarrow> GLuint \<times> world" where
  "createShaderProgram vertexSource fragmentSource w =
     (let (vertexShader, w1) = compileShader GL_VERTEX_SHADER vertexSource w;
          (fragmentShader, w2) = compileShader GL_FRAGMENT_SHADER fragmentSource w1
      in if vertexShader = 0 \<or> fragmentShader = 0 then (0, w2)
         else
           (let (program, w3) = glCreateProgram w2;
                w4 = glAttachShader program vertexShader w3;
                w5 = glAttachShader program fragmentShader w4;
                w6 = glLinkProgram program w5;
                (success, w7) = glGetProgramiv program GL_LINK_STATUS w6
            in if success = 0
               then (let (infoLog, w8) = glGetProgramInfoLog program 512 w7
                     in (0, VR_LOGE ''Shader program linking failed: %s'' [ArgS infoLog] w8))
               else (let w8 = glDeleteShader vertexShader w7;
                         w9 = glDeleteShader fragmentShader w8
                     in (program, w9))))"

definition createTexture :: "world \<Rightarrow> GLuint \<times> world" where
  "createTexture w =
     (let (texture, w1) = glGenTextures 1 w;
          w2 = glBindTexture GL_TEXTURE_2D texture w1;
          w3 = glTexParameteri GL_TEXTURE_2D GL_TEXTURE_MIN_FILTER GL_LINEAR w2;
          w4 = glTexParameteri GL_TEXTURE_2D GL_TEXTURE_MAG_FILTER GL_LINEAR w3;
          w5 = glTexParameteri GL_TEXTURE_2D GL_TEXTURE_WRAP_S GL_CLAMP_TO_EDGE w4;
          w6 = glTexParameteri GL_TEXTURE_2D GL_TEXTURE_WRAP_T GL_CLAMP_TO_EDGE w5
      in (texture, w6))"

definition initialize :: "VRRenderer \<Rightarrow> world \<Rightarrow> bool \<times> VRRenderer \<times> world" where
  "initialize r w =
     (let w0 = VR_LOGI ''Initializing VR Renderer'' [] w;
          (program, w1) = createShaderProgram VERTEX_SHADER FRAGMENT_SHADER w0;
          r1 = r\<lparr>shaderProgram := program\<rparr>
      in if shaderProgram r1 = 0
         then (False, r1, VR_LOGE ''Failed to create shader program'' [] w1)
         else
           (let (a, w2) = glGenVertexArrays 1 w1;
                r2 = r1\<lparr>vao := a\<rparr>;
                (b, w3) = glGenBuffers 1 w2;
                r3 = r2\<lparr>vbo := b\<rparr>;
                w4 = glBindVertexArray (vao r3) w3;
                w5 = glBindBuffer GL_ARRAY_BUFFER (vbo r3) w4;
                w6 = glBufferData GL_ARRAY_BUFFER (18 * 4) fullScreenTriangle GL_STATIC_DRAW w5;
                w7 = glVertexAttribPointer 0 2 GL_FLOAT False (4 * 4) 0 w6;
                w8 = glEnableVertexAttribArray 0 w7;
                w9 = glVertexAttribPointer 1 2 GL_FLOAT False (4 * 4) (2 * 4) w8;
                w10 = glEnableVertexAttribArray 1 w9;
                w11 = glBindVertexArray 0 w10;
                (lt, w12) = createTexture w11;
                r4 = r3\<lparr>leftEyeTexture := lt\<rparr>;
                (rt, w13) = createTexture w12;
                r5 = r4\<lparr>rightEyeTexture := rt\<rparr>
            in (True, r5, VR_LOGI ''VR Renderer initialized successfully'' [] w13)))"

definition configAttribs :: "egl_attrib list" where
  "configAttribs =
     [Sym EGL_RENDERABLE_TYPE, Sym EGL_OPENGL_ES3_BIT,
      Sym EGL_SURFACE_TYPE, Sym EGL_WINDOW_BIT,
      Sym EGL_RED_SIZE, Num 8,
      Sym EGL_GREEN_SIZE, Num 8,
      Sym EGL_BLUE_SIZE, Num 8,
      Sym EGL_ALPHA_SIZE, Num 8,
      Sym EGL_DEPTH_SIZE, Num 16,
      Sym EGL_SAMPLE_BUFFERS, Num 1,
      Sym EGL_SAMPLES, Num 4,
      Sym EGL_NONE]"

definition contextAttribs :: "egl_attrib list" where
  "contextAttribs = [Sym EGL_CONTEXT_CLIENT_VERSION, Num 3, Sym EGL_NONE]"

definition initializeEGL :: "VRRenderer \<Rightarrow> handle \<Rightarrow> world \<Rightarrow> bool \<times> VRRenderer \<times> world" where
  "initializeEGL r nativeWindow w =
     (let r1 = r\<lparr>window := nativeWindow\<rparr>;
          (d, w1) = eglGetDisplay EGL_DEFAULT_DISPLAY w;
          r2 = r1\<lparr>display := d\<rparr>
      in if display r2 = EGL_NO_DISPLAY
         then (False, r2, VR_LOGE ''Failed to get EGL display'' [] w1)
         else
           (let (ok, w2) = eglInitialize (display r2) w1
            in if \<not> ok
               then (False, r2, VR_LOGE ''Failed to initialize EGL'' [] w2)
               else
                 (let (ok, config, numConfigs, w3) = eglChooseConfig (display r2) configAttribs 1 w2
                  in if \<not> ok
                     then (False, r2, VR_LOGE ''Failed to choose EGL config'' [] w3)
                     else
                       (let (format, w4) =
                              eglGetConfigAttrib (display r2) config EGL_NATIVE_VISUAL_ID w3;
                            w5 = aNativeWindow_setBuffersGeometry (window r2) 0 0 format w4;
                            (s, w6) = eglCreateWindowSurface (display r2) config (window r2) w5;
                            r3 = r2\<lparr>surface := s\<rparr>
                        in if surface r3 = EGL_NO_SURFACE
                           then (False, r3, VR_LOGE ''Failed to create EGL surface'' [] w6)
                           else
                             (let (c, w7) =
                                    eglCreateContext (display r3) config EGL_NO_CONTEXT contextAttribs w6;
                                  r4 = r3\<lparr>egl_context := c\<rparr>
                              in if egl_context r4 = EGL_NO_CONTEXT
                                 then (False, r4, VR_LOGE ''Failed to create EGL context'' [] w7)
                                 else
                                   (let (ok, w8) =
                                          eglMakeCurrent (display r4) (surface r4) (surface r4)
                                            (egl_context r4) w7
                                    in if \<not> ok
                                       then (False, r4,
                                             VR_LOGE ''Failed to make EGL context current'' [] w8)
                                       else
                                         (let w9 = eglSwapInterval (display r4) 1 w8
                                          in (True, r4,
                                              VR_LOGI ''EGL initialized successfully'' [] w9))))))))"

definition setViewport :: "VRRenderer \<Rightarrow> int \<Rightarrow> int \<Rightarrow> world \<Rightarrow> VRRenderer \<times> world" where
  "setViewport r width' height' w =
     (r\<lparr>viewportWidth := width', viewportHeight := height'\<rparr>,
      VR_LOGI ''Viewport set to %dx%d (per-eye: %dx%d)''
        [ArgI width', ArgI height', ArgI (width' sdiv 2), ArgI height'] w)"

text \<open>
  \<^verbatim>\<open>renderFrame\<close>: two guards, then the clear colour, the clear, the error query, the
  swap, and the frame counter. \<^verbatim>\<open>%\<close> is the truncating remainder \<open>smod\<close>.
\<close>

definition renderFrame :: "VRRenderer \<Rightarrow> world \<Rightarrow> VRRenderer \<times> world" where
  "renderFrame r w =
     (if window r = nullptr
      then (r, VR_LOGE ''renderFrame: No window!'' [] w)
      else if display r = EGL_NO_DISPLAY \<or> surface r = EGL_NO_SURFACE
                \<or> egl_context r = EGL_NO_CONTEXT
      then (r, VR_LOGE ''renderFrame: Invalid EGL state!'' [] w)
      else
        (let r1 = r\<lparr>renderTime := renderTime r + 0.016\<rparr>;
             w1 = glClearColor 1 0 1 1 w;
             w2 = glClear [GL_COLOR_BUFFER_BIT, GL_DEPTH_BUFFER_BIT] w1;
             (err, w3) = glGetError w2;
             w4 = (if err \<noteq> GL_NO_ERROR
                   then VR_LOGE ''OpenGL error after clear: 0x%x'' [ArgI (int err)] w3
                   else w3);
             (swapped, w5) = eglSwapBuffers (display r1) (surface r1) w4;
             w6 = (if \<not> swapped
                   then (let (error, w') = eglGetError w5
                         in VR_LOGE ''eglSwapBuffers failed! Error: 0x%x'' [ArgI (int error)] w')
                   else w5);
             w7 = w6\<lparr>frameCount := frameCount w6 + 1\<rparr>;
             w8 = (if frameCount w7 smod 60 = 0
                   then VR_LOGI ''Rendered frame %d - MAGENTA SHOULD BE VISIBLE''
                          [ArgI (frameCount w7)] w7
                   else w7)
         in (r1, w8)))"

definition renderEye :: "VRRenderer \<Rightarrow> GLuint \<Rightarrow> int \<Rightarrow> int \<Rightarrow> int \<Rightarrow> int \<Rightarrow> world \<Rightarrow> world" where
  "renderEye r eyeTexture x y width' height' w =
     (let w1 = glViewport x y width' height' w;
          w2 = glActiveTexture GL_TEXTURE0 w1;
          w3 = glBindTexture GL_TEXTURE_2D eyeTexture w2;
          (texLocation, w4) = glGetUniformLocation (shaderProgram r) ''uTexture'' w3;
          w5 = glUniform1i texLocation 0 w4
      in glDrawArrays GL_TRIANGLES 0 3 w5)"

text \<open>
  The test pattern of \<^verbatim>\<open>updateTexture\<close>: a zero-filled vector of
  \<open>texWidth * texHeight * 3\<close> bytes, then two nested loops that write the three bytes of
  every pixel. The counters are non-negative and far from the limits of \<^verbatim>\<open>int\<close>.
\<close>

definition texWidth :: nat where "texWidth = 1024"
definition texHeight :: nat where "texHeight = 1024"

definition pattern_pixel :: "nat \<Rightarrow> nat \<Rightarrow> nat \<Rightarrow> nat \<Rightarrow> u8 list \<Rightarrow> u8 list" where
  "pattern_pixel tw th y x tp =
     (let idx = (y * tw + x) * 3
      in tp[idx + 0 := of_nat ((x * 255) div tw),
            idx + 1 := of_nat ((y * 255) div th),
            idx + 2 := 128])"

definition pattern_row :: "nat \<Rightarrow> nat \<Rightarrow> nat \<Rightarrow> u8 list \<Rightarrow> u8 list" where
  "pattern_row tw th y tp = fold (pattern_pixel tw th y) [0..<tw] tp"

definition gradient_pattern :: "nat \<Rightarrow> nat \<Rightarrow> u8 list" where
  "gradient_pattern tw th = fold (pattern_row tw th) [0..<th] (replicate (tw * th * 3) 0)"

definition testPattern :: "u8 list" where
  "testPattern = gradient_pattern texWidth texHeight"

definition updateTexture :: "VRRenderer \<Rightarrow> u8 list \<Rightarrow> int \<Rightarrow> u8 list \<Rightarrow> int \<Rightarrow> world \<Rightarrow> world" where
  "updateTexture r leftData leftSize rightData rightSize w =
     (let w0 = VR_LOGI ''updateTexture called: left=%d bytes, right=%d bytes''
                 [ArgI leftSize, ArgI rightSize] w;
          w1 = glBindTexture GL_TEXTURE_2D (leftEyeTexture r) w0;
          w2 = glTexImage2D GL_TEXTURE_2D 0 GL_RGB (int texWidth) (int texHeight) 0
                 GL_RGB GL_UNSIGNED_BYTE testPattern w1;
          w3 = glBindTexture GL_TEXTURE_2D (rightEyeTexture r) w2;
          w4 = glTexImage2D GL_TEXTURE_2D 0 GL_RGB (int texWidth) (int texHeight) 0
                 GL_RGB GL_UNSIGNED_BYTE testPattern w3;
          w5 = glBindTexture GL_TEXTURE_2D 0 w4
      in VR_LOGI ''Textures updated with test pattern'' [] w5)"

definition cleanup :: "VRRenderer \<Rightarrow> world \<Rightarrow> world" where
  "cleanup r w =
     (let w1 = (if vao r \<noteq> 0 then glDeleteVertexArrays 1 (vao r) w else w);
          w2 = (if vbo r \<noteq> 0 then glDeleteBuffers 1 (vbo r) w1 else w1);
          w3 = (if leftEyeTexture r \<noteq> 0 then glDeleteTextures 1 (leftEyeTexture r) w2 else w2);
          w4 = (if rightEyeTexture r \<noteq> 0 then glDeleteTextures 1 (rightEyeTexture r) w3 else w3);
          w5 = (if shaderProgram r \<noteq> 0 then glDeleteProgram (shaderProgram r) w4 else w4);
          w6 = (if display r \<noteq> EGL_NO_DISPLAY
                then (let (ok, a) = eglMakeCurrent (display r) EGL_NO_SURFACE EGL_NO_SURFACE
                                      EGL_NO_CONTEXT w5;
                          b = (if egl_context r \<noteq> EGL_NO_CONTEXT
                               then eglDestroyContext (display r) (egl_context r) a else a);
                          c = (if surface r \<noteq> EGL_NO_SURFACE
                               then eglDestroySurface (display r) (surface r) b else b)
                      in eglTerminate (display r) c)
                else w5)
      in if window r \<noteq> nullptr then aNativeWindow_release (window r) w6 else w6)"

subsection \<open>The global renderer and the JNI exports\<close>

text \<open>
  \<^verbatim>\<open>g_renderer\<close> is a pointer to a heap object or null: an \<open>option\<close>. A process is the
  global next to the world.
\<close>

type_synonym process = "VRRenderer option \<times> world"

definition g_renderer :: "process \<Rightarrow> VRRenderer option" where
  "g_renderer p = fst p"

definition nativeOnCreate :: "process \<Rightarrow> process" where
  "nativeOnCreate p =
     (let w0 = VR_LOGI ''nativeOnCreate'' [] (snd p)
      in (Some VRRenderer_ctor, w0))"

definition nativeOnDestroy :: "process \<Rightarrow> process" where
  "nativeOnDestroy p =
     (let w0 = VR_LOGI ''nativeOnDestroy'' [] (snd p)
      in case g_renderer p of
           None \<Rightarrow> (None, w0)
         | Some r \<Rightarrow> (None, cleanup r w0))"

definition nativeOnSurfaceCreated :: "process \<Rightarrow> handle \<Rightarrow> process" where
  "nativeOnSurfaceCreated p surf =
     (let w0 = VR_LOGI ''nativeOnSurfaceCreated'' [] (snd p)
      in case g_renderer p of
           None \<Rightarrow> (None, w0)
         | Some r \<Rightarrow>
             (let (win, w1) = aNativeWindow_fromSurface surf w0;
                  (ok1, r1, w2) = initializeEGL r win w1;
                  (ok2, r2, w3) = initialize r1 w2
              in (Some r2, w3)))"

definition nativeOnSurfaceChanged :: "process \<Rightarrow> int \<Rightarrow> int \<Rightarrow> process" where
  "nativeOnSurfaceChanged p width' height' =
     (let w0 = VR_LOGI ''nativeOnSurfaceChanged: %dx%d'' [ArgI width', ArgI height'] (snd p)
      in case g_renderer p of
           None \<Rightarrow> (None, w0)
         | Some r \<Rightarrow> (let (r1, w1) = setViewport r width' height' w0 in (Some r1, w1)))"

definition nativeOnDrawFrame :: "process \<Rightarrow> process" where
  "nativeOnDrawFrame p =
     (case g_renderer p of
        None \<Rightarrow> (None, snd p)
      | Some r \<Rightarrow> (let (r1, w1) = renderFrame r (snd p) in (Some r1, w1)))"

definition nativeUpdateTexture :: "process \<Rightarrow> u8 list \<Rightarrow> int \<Rightarrow> u8 list \<Rightarrow> int \<Rightarrow> process" where
  "nativeUpdateTexture p leftData leftSize rightData rightSize =
     (case g_renderer p of
        None \<Rightarrow> (None, snd p)
      | Some r \<Rightarrow>
          (let (leftBytes, w1) = getByteArrayElements leftData (snd p);
               (rightBytes, w2) = getByteArrayElements rightData w1;
               w3 = updateTexture r leftBytes leftSize rightBytes rightSize w2;
               w4 = releaseByteArrayElements leftData leftBytes JNI_ABORT w3;
               w5 = releaseByteArrayElements rightData rightBytes JNI_ABORT w4
           in (Some r, w5)))"

subsection \<open>Reading a history of calls\<close>

text \<open>
  What a history of calls has uploaded: \<open>tex_step\<close> follows the texture bound last and
  records, for the bound texture, the width, height and bytes of the last
  \<^verbatim>\<open>glTexImage2D\<close>. \<open>uploaded cs t\<close> is the image last uploaded to texture \<open>t\<close>.
\<close>

type_synonym image = "int \<times> int \<times> u8 list"

definition tex_step :: "call \<Rightarrow> GLuint \<times> (GLuint \<Rightarrow> image option) \<Rightarrow> GLuint \<times> (GLuint \<Rightarrow> image option)" where
  "tex_step c s =
     (case c of
        GL (GlBindTexture target t) \<Rightarrow> (t, snd s)
      | GL (GlTexImage2D target level ifmt wd ht border fmt ty px) \<Rightarrow>
          (fst s, (snd s)(fst s := Some (wd, ht, px)))
      | _ \<Rightarrow> s)"

definition uploaded :: "call list \<Rightarrow> GLuint \<Rightarrow> image option" where
  "uploaded cs = snd (fold tex_step cs (0, \<lambda>t. None))"

text \<open>The calls that draw.\<close>

definition is_draw :: "call \<Rightarrow> bool" where
  "is_draw c = (case c of GL (GlDrawArrays mode first count) \<Rightarrow> True | _ \<Rightarrow> False)"

section \<open>Concrete inputs\<close>

text \<open>A fresh world whose platform answers 0 to everything.\<close>

definition world0 :: world where
  "world0 = \<lparr>calls = [], logs = [], respond = (\<lambda>cs k. 0), respond_str = (\<lambda>cs. []),
             frameCount = 0\<rparr>"

text \<open>
  A platform on which \<^verbatim>\<open>glGetError\<close> reports no error and every other call succeeds,
  answering with its position in the history (so that the handles it gives out differ).
\<close>

definition world_ok :: world where
  "world_ok = \<lparr>calls = [], logs = [],
                respond = (\<lambda>cs k. if last cs = GL GlGetError then 0 else length cs),
                respond_str = (\<lambda>cs. []), frameCount = 0\<rparr>"

text \<open>
  A decoder for 2 by 2 images, and the renderer that \<^verbatim>\<open>nativeOnCreate\<close>,
  \<^verbatim>\<open>nativeOnSurfaceCreated\<close> and \<^verbatim>\<open>nativeOnSurfaceChanged\<close> leave on the platform
  \<open>world_ok\<close>: its window and EGL objects are all set.
\<close>

definition decoder2 :: FrameDecoder where
  "decoder2 = \<lparr>width = 2, height = 2, rgbBuffer = replicate 12 0\<rparr>"

definition renderer_live :: VRRenderer where
  "renderer_live =
     \<lparr>display = 2, surface = 7, egl_context = 8, window = 1, shaderProgram = 19, vao = 26,
      vbo = 27, leftEyeTexture = 36, rightEyeTexture = 42, currentEyeTexture = 0,
      viewportWidth = 2560, viewportHeight = 1440, renderTime = 0\<rparr>"

text \<open>A solid red and a solid blue image of 1024 by 1024 pixels.\<close>

definition solid :: "u8 \<Rightarrow> u8 \<Rightarrow> u8 \<Rightarrow> u8 list" where
  "solid r g b = concat (replicate (texWidth * texHeight) [r, g, b])"

definition red :: "u8 list" where "red = solid 255 0 0"
definition blue :: "u8 list" where "blue = solid 0 0 255"

section \<open>The frame decoder\<close>

text \<open>
  C3 (as the code has it). \<^verbatim>\<open>decodeJPEG\<close> reports success for every input, the empty
  and the truncated ones included; it never fails, writes nothing to the output buffer,
  and only logs the size it was given.
\<close>

theorem decodeJPEG_reports_success:
  "decodeJPEG d jpegData jpegSize outRGB w =
     (True, outRGB, FD_LOGI ''Decoding JPEG: %d bytes'' [ArgI jpegSize] w)"
  by (simp add: decodeJPEG_def)

text \<open>
  C3 as stated fails: on the empty input, and on an input cut after the start-of-image
  marker, the result is \<^verbatim>\<open>true\<close>, not an error.
\<close>

theorem decodeJPEG_empty_counterexample:
  "fst (decodeJPEG decoder2 [] 0 (replicate 12 0) world0) = True
   \<and> fst (decodeJPEG decoder2 [0xFF, 0xD8] 2 (replicate 12 0) world0) = True"
  by (simp add: decodeJPEG_def)





text \<open>
  The resize shared by the constructor and \<^verbatim>\<open>setDimensions\<close>: for positive dimensions
  whose product times 3 is an \<^verbatim>\<open>int\<close>, it returns, keeps the dimensions and leaves a
  buffer of that many bytes.
\<close>

lemma resize_rgbBuffer_ok:
  assumes "0 < width d" "0 < height d" "width d * height d * 3 \<le> INT_MAX"
  shows "\<exists>d'. resize_rgbBuffer d = Inr d' \<and> width d' = width d \<and> height d' = height d
           \<and> int (length (rgbBuffer d')) = width d' * height d' * 3"
proof -
  define p where "p = width d * height d"
  have pos: "0 < p" using assms(1,2) by (simp add: p_def)
  have hi3: "p * 3 \<le> INT_MAX" using assms(3) by (simp add: p_def)
  have m1: "mul_int (width d) (height d) = Inr p"
    using pos hi3 by (simp add: mul_int_def p_def [symmetric] INT_MIN_def)
  have m2: "mul_int p 3 = Inr (p * 3)"
    using pos hi3 by (simp add: mul_int_def INT_MIN_def)
  define B where "B = take (nat (p * 3)) (rgbBuffer d) @ replicate (nat (p * 3) - length (rgbBuffer d)) (0::u8)"
  have v: "vector_resize (rgbBuffer d) (p * 3) = Inr B"
    using pos by (simp add: vector_resize_def B_def)
  have len: "int (length B) = p * 3"
    using pos by (simp add: B_def)
  have r: "resize_rgbBuffer d = Inr (d\<lparr>rgbBuffer := B\<rparr>)"
    by (simp add: resize_rgbBuffer_def m1 m2 v)
  have "int (length (rgbBuffer (d\<lparr>rgbBuffer := B\<rparr>))) = width d * height d * 3"
    using len by (simp add: p_def)
  then show ?thesis
    by (simp add: r)
qed

text \<open>
  C10 (as the code has it). For all positive dimensions whose product
  \<open>w * h * 3\<close> does not exceed \<^verbatim>\<open>INT_MAX\<close>, the constructor and \<^verbatim>\<open>setDimensions\<close> both
  return a decoder with those dimensions whose scratch buffer has exactly
  \<open>width * height * 3\<close> bytes.
\<close>

theorem rgbBuffer_size_invariant:
  assumes "0 < w" "0 < h" "w * h * 3 \<le> INT_MAX"
  shows "(\<exists>d. FrameDecoder_ctor w h = Inr d \<and> width d = w \<and> height d = h
              \<and> int (length (rgbBuffer d)) = width d * height d * 3)
       \<and> (\<exists>d'. setDimensions d0 w h = Inr d' \<and> width d' = w \<and> height d' = h
              \<and> int (length (rgbBuffer d')) = width d' * height d' * 3)"
  using resize_rgbBuffer_ok [of "\<lparr>width = w, height = h, rgbBuffer = []\<rparr>"]
        resize_rgbBuffer_ok [of "d0\<lparr>width := w, height := h\<rparr>"] assms
  by (simp add: FrameDecoder_ctor_def setDimensions_def)

theorem rgbBuffer_size_invariant_witness:
  "(\<exists>d. FrameDecoder_ctor 1024 1024 = Inr d \<and> width d = 1024 \<and> height d = 1024
              \<and> int (length (rgbBuffer d)) = width d * height d * 3)
       \<and> (\<exists>d'. setDimensions decoder2 1920 1080 = Inr d' \<and> width d' = 1920 \<and> height d' = 1080
              \<and> int (length (rgbBuffer d')) = width d' * height d' * 3)"
  using rgbBuffer_size_invariant [of 1024 1024 decoder2] rgbBuffer_size_invariant [of 1920 1080 decoder2]
  by (simp add: INT_MAX_def)

text \<open>
  C10 as stated fails: 65536 by 65536 are positive dimensions, and \<open>width * height\<close>
  overflows \<^verbatim>\<open>int\<close>, both in the constructor and in \<^verbatim>\<open>setDimensions\<close>.
\<close>

theorem rgbBuffer_overflow_counterexample:
  "(0::int) < 65536 \<and> FrameDecoder_ctor 65536 65536 = Inl Signed_overflow
   \<and> setDimensions decoder2 65536 65536 = Inl Signed_overflow"
  by (simp add: FrameDecoder_ctor_def setDimensions_def resize_rgbBuffer_def mul_int_def
      INT_MAX_def INT_MIN_def)

end
